theory Spec2Isabelle
  imports Main
begin

section \<open>The downstream interpreter as seen by the components\<close>

text \<open>
  The components talk to Klipper through an object with two methods,
  \<^verbatim>\<open>run_gcode(script)\<close> and \<^verbatim>\<open>query_objects(objects)\<close>. Both may raise. The
  interpreter itself is not part of the repository, so it is a parameter: a record of two
  functions over an interpreter state \<open>'k\<close>. \<open>run_gcode\<close> answers \<open>None\<close> when the
  call returns and \<open>Some msg\<close> when it raises an exception \<open>e\<close> with \<open>str(e) = msg\<close>;
  \<open>query_objects\<close> answers \<open>Inr result\<close> or \<open>Inl msg\<close>. Every query in the code
  asks for one object, \<^verbatim>\<open>{name: None}\<close>, so the name stands for the dictionary.
\<close>

record ('k, 'r) klippy_apis =
  run_gcode :: "string \<Rightarrow> 'k \<Rightarrow> string option \<times> 'k"
  query_objects :: "string \<Rightarrow> 'k \<Rightarrow> (string + 'r) \<times> 'k"

text \<open>
  What a run leaves behind: the interpreter state, every call made to the interpreter
  together with its outcome (in order), and the records handed to \<^verbatim>\<open>logging\<close>.
\<close>

datatype call = Gcode string | Query string

datatype level = DEBUG | INFO | ERROR

record 'k world =
  kstate :: 'k
  calls :: "(call \<times> string option) list"
  logging :: "(level \<times> string) list"

definition api_run_gcode ::
  "('k, 'r) klippy_apis \<Rightarrow> string \<Rightarrow> 'k world \<Rightarrow> string option \<times> 'k world" where
  "api_run_gcode api script w =
     (case run_gcode api script (kstate w) of
        (r, k') \<Rightarrow> (r, w\<lparr>kstate := k', calls := calls w @ [(Gcode script, r)]\<rparr>))"

definition api_query_objects ::
  "('k, 'r) klippy_apis \<Rightarrow> string \<Rightarrow> 'k world \<Rightarrow> (string + 'r) \<times> 'k world" where
  "api_query_objects api obj w =
     (case query_objects api obj (kstate w) of
        (r, k') \<Rightarrow>
          (r, w\<lparr>kstate := k',
                 calls := calls w @ [(Query obj, case r of Inl e \<Rightarrow> Some e | Inr _ \<Rightarrow> None)]\<rparr>))"

definition log_msg :: "level \<Rightarrow> string \<Rightarrow> 'k world \<Rightarrow> 'k world" where
  "log_msg lv msg w = w\<lparr>logging := logging w @ [(lv, msg)]\<rparr>"

text \<open>The G-code scripts passed to \<^verbatim>\<open>run_gcode\<close> so far, whatever their outcome.\<close>

fun gcodes :: "(call \<times> string option) list \<Rightarrow> string list" where
  "gcodes [] = []"
| "gcodes ((Gcode s, r) # cs) = s # gcodes cs"
| "gcodes ((Query q, r) # cs) = gcodes cs"

section \<open>Requests and exceptions\<close>

text \<open>
  The request object of the web framework is not part of the repository either. A
  request is taken as what its methods answer.

  \<^verbatim>\<open>get_request_type()\<close> answers a member of the framework's flag \<^verbatim>\<open>RequestType\<close>:
  the handlers are registered with \<^verbatim>\<open>request_types=\<close> and read the type with this
  method. The code compares the answer with strings, so the value is taken from a type
  that has both: a flag member is equal to no string.

  \<^verbatim>\<open>web_request.get\<close> (\<open>raw_args\<close>) answers the value as the body gave it, of any JSON
  type. Each typed getter answers, for a key, that the key is missing, that the
  conversion raises, or the converted value.
\<close>

datatype RequestType = GET | POST | DELETE

datatype request_type_value = TypeFlag RequestType | TypeStr string

datatype 'f py =
    PyNone
  | PyBool bool
  | PyInt int
  | PyFloat 'f
  | PyStr string
  | PyList "'f py list"
  | PyDict "(string \<times> 'f py) list"

datatype 'v arg = Missing | Invalid string | Given 'v

record 'f web_request =
  request_type :: request_type_value
  raw_args :: "string \<rightharpoonup> 'f py"
  str_args :: "string \<Rightarrow> string arg"
  int_args :: "string \<Rightarrow> int arg"
  float_args :: "string \<Rightarrow> 'f arg"

datatype exn =
    Raised string
  | ArgError string
  | KeyError string
  | TypeError string
  | HTTPError nat string

type_synonym response = "(string \<times> string) list"

text \<open>Python's \<^verbatim>\<open>str\<close> of an integer, for the f-strings that build commands.\<close>

definition digit :: "nat \<Rightarrow> char" where
  "digit d = ''0123456789'' ! d"

function str_nat :: "nat \<Rightarrow> string" where
  "str_nat n = (if n < 10 then [digit n] else str_nat (n div 10) @ [digit (n mod 10)])"
  by pat_completeness auto
termination
  by (relation "measure (\<lambda>n. n)") auto

definition str_int :: "int \<Rightarrow> string" where
  "str_int i = (if i < 0 then ''-'' @ str_nat (nat (- i)) else str_nat (nat i))"

section \<open>CNCMCodesHandler: the modal state endpoint\<close>

definition command_map :: "string \<rightharpoonup> string" where
  "command_map =
     [''save'' \<mapsto> ''M70'', ''restore'' \<mapsto> ''M72'',
      ''invalidate'' \<mapsto> ''M71'', ''auto_save'' \<mapsto> ''M73'']"

text \<open>
  The loop of the DELETE branch, \<^verbatim>\<open>for _ in range(10)\<close> with \<^verbatim>\<open>break\<close> in the bare
  \<^verbatim>\<open>except\<close>; the first argument is the number of iterations left.
\<close>

fun clear_states :: "('k, 'r) klippy_apis \<Rightarrow> nat \<Rightarrow> 'k world \<Rightarrow> 'k world" where
  "clear_states api 0 w = w"
| "clear_states api (Suc n) w =
     (case api_run_gcode api ''M71'' w of
        (None, w') \<Rightarrow> clear_states api n w'
      | (Some e, w') \<Rightarrow> w')"

definition invalid_action :: "string \<Rightarrow> response" where
  "invalid_action a = [(''result'', ''error''), (''message'', ''Invalid action: '' @ a)]"

text \<open>
  In the POST branch \<^verbatim>\<open>command_map.get(action)\<close> hashes the action: a list or a
  dictionary raises \<^verbatim>\<open>TypeError\<close>, before the \<^verbatim>\<open>try\<close>; any other value that is
  not a string is no key of the table, and the f-string writes its \<^verbatim>\<open>str\<close>. The
  rendering of a float is a parameter, \<open>str_float\<close>.
\<close>

definition handle_modal_state ::
  "('k, 'r) klippy_apis option \<Rightarrow> ('f \<Rightarrow> string) \<Rightarrow> 'f web_request \<Rightarrow> 'k world
     \<Rightarrow> (exn + response) \<times> 'k world"
  where
  "handle_modal_state klippy_apis str_float web_request w =
     (case klippy_apis of
        None \<Rightarrow> (Inr [(''result'', ''error''), (''message'', ''Klippy not connected'')], w)
      | Some api \<Rightarrow>
          if request_type web_request = TypeStr ''GET'' then
            (case api_query_objects api ''cnc_m_codes'' w of
               (Inr result, w') \<Rightarrow>
                 (Inr [(''result'', ''success''),
                       (''message'', ''Modal state tracking active'')], w')
             | (Inl e, w') \<Rightarrow> (Inr [(''result'', ''error''), (''message'', e)], w'))
          else if request_type web_request = TypeStr ''POST'' then
            (case (case raw_args web_request ''action'' of
                     None \<Rightarrow> PyStr ''save'' | Some a \<Rightarrow> a) of
               PyList xs \<Rightarrow>
                 (Inl (TypeError (''unhashable type: '' @ [CHR 0x27] @ ''list'' @ [CHR 0x27])), w)
             | PyDict kvs \<Rightarrow>
                 (Inl (TypeError (''unhashable type: '' @ [CHR 0x27] @ ''dict'' @ [CHR 0x27])), w)
             | PyNone \<Rightarrow> (Inr (invalid_action ''None''), w)
             | PyBool b \<Rightarrow> (Inr (invalid_action (if b then ''True'' else ''False'')), w)
             | PyInt i \<Rightarrow> (Inr (invalid_action (str_int i)), w)
             | PyFloat x \<Rightarrow> (Inr (invalid_action (str_float x)), w)
             | PyStr action \<Rightarrow>
                 (case command_map action of
                    None \<Rightarrow> (Inr (invalid_action action), w)
                  | Some command \<Rightarrow>
                      if command = [] then (Inr (invalid_action action), w)
                      else
                        (case api_run_gcode api command w of
                           (None, w') \<Rightarrow>
                             (Inr [(''result'', ''success''), (''action'', action),
                                   (''command'', command)], w')
                         | (Some e, w') \<Rightarrow>
                             (Inr [(''result'', ''error''), (''message'', e)], w'))))
          else if request_type web_request = TypeStr ''DELETE'' then
            (Inr [(''result'', ''success''), (''message'', ''All modal states cleared'')],
             clear_states api 10 w)
          else (Inr [(''result'', ''error''), (''message'', ''Invalid request type'')], w))"

text \<open>
  An example interpreter for concrete runs: it keeps the depth of a modal state stack
  of at most ten states (the handler's comment: \<^verbatim>\<open>Max 10 nested states\<close>). It rejects
  \<^verbatim>\<open>M70\<close> on the full stack and \<^verbatim>\<open>M71\<close> and \<^verbatim>\<open>M72\<close> on the empty stack, and
  accepts every other script.
\<close>

definition stack_klippy :: "(nat, unit) klippy_apis" where
  "stack_klippy =
     \<lparr>run_gcode = (\<lambda>script depth.
        if script = ''M70'' then
          (if depth < 10 then (None, Suc depth) else (Some ''Modal state stack full'', depth))
        else if script = ''M71'' \<or> script = ''M72'' then
          (if depth = 0 then (Some ''No modal state saved'', 0) else (None, depth - 1))
        else (None, depth)),
      query_objects = (\<lambda>obj depth. (Inr (), depth))\<rparr>"

definition world0 :: "'k \<Rightarrow> 'k world" where
  "world0 k = \<lparr>kstate = k, calls = [], logging = []\<rparr>"

definition request :: "request_type_value \<Rightarrow> (string \<times> unit py) list \<Rightarrow> unit web_request" where
  "request rt kvs =
     \<lparr>request_type = rt, raw_args = map_of kvs, str_args = (\<lambda>_. Missing),
      int_args = (\<lambda>_. Missing), float_args = (\<lambda>_. Missing)\<rparr>"

definition no_float :: "unit \<Rightarrow> string" where
  "no_float x = []"

section \<open>M30Handler and M2RestartHandler: the completion listeners\<close>

text \<open>
  A status update is a dictionary of dictionaries. \<^verbatim>\<open>lookup_component\<close> of the server
  either raises (\<open>Inl msg\<close>) or answers the component.
\<close>

type_synonym status_update = "string \<rightharpoonup> (string \<rightharpoonup> string)"

definition is_complete :: "status_update \<Rightarrow> bool" where
  "is_complete status_update =
     (let print_stats = (case status_update ''print_stats'' of
                           None \<Rightarrow> Map.empty | Some ps \<Rightarrow> ps)
      in print_stats ''state'' = Some ''complete'')"

definition check_m30_execution ::
  "string + ('k, 'r) klippy_apis \<Rightarrow> status_update \<Rightarrow> 'k world \<Rightarrow> (exn + unit) \<times> 'k world"
  where
  "check_m30_execution lookup_klippy_apis status_update w =
     (if is_complete status_update then
        (case lookup_klippy_apis of
           Inl e \<Rightarrow> (Inr (), log_msg DEBUG (''Could not reset file position: '' @ e) w)
         | Inr klippy_apis \<Rightarrow>
             (case api_run_gcode klippy_apis ''SDCARD_RESET_FILE'' w of
                (None, w') \<Rightarrow>
                  (Inr (),
                   log_msg INFO
                     ''Job complete - File position reset for repeat (M30 behavior)'' w')
              | (Some e, w') \<Rightarrow>
                  (Inr (), log_msg DEBUG (''Could not reset file position: '' @ e) w')))
      else (Inr (), w))"

definition check_restart_execution ::
  "string + ('k, 'r) klippy_apis \<Rightarrow> status_update \<Rightarrow> 'k world \<Rightarrow> (exn + unit) \<times> 'k world"
  where
  "check_restart_execution lookup_klippy_apis status_update w =
     (if is_complete status_update then
        (case lookup_klippy_apis of
           Inl e \<Rightarrow> (Inr (), log_msg DEBUG (''Could not reset file position: '' @ e) w)
         | Inr klippy_apis \<Rightarrow>
             (case api_run_gcode klippy_apis ''SDCARD_RESET_FILE'' w of
                (None, w') \<Rightarrow>
                  (Inr (),
                   log_msg INFO
                     ''M2 RESTART detected - File position reset for repeat (CNC mode)'' w')
              | (Some e, w') \<Rightarrow>
                  (Inr (), log_msg DEBUG (''Could not reset file position: '' @ e) w')))
      else (Inr (), w))"

text \<open>
  Modelled from the spec: the event source, which is not part of the repository. It
  "delivers asynchronous status notifications to zero or more registered listeners",
  "ordered per source, no replay". Both components register their listener for
  \<^verbatim>\<open>server:status_update\<close>; a delivery runs every registered listener on the update,
  and a listener that raises does not stop the others. The listeners keep no state of
  their own, so the calls each one makes do not depend on the order in which they run.
\<close>

datatype listener = M30Listener | M2RestartListener

fun run_listener ::
  "string + ('k, 'r) klippy_apis \<Rightarrow> listener \<Rightarrow> status_update \<Rightarrow> 'k world
     \<Rightarrow> (exn + unit) \<times> 'k world" where
  "run_listener lk M30Listener su w = check_m30_execution lk su w"
| "run_listener lk M2RestartListener su w = check_restart_execution lk su w"

fun deliver ::
  "string + ('k, 'r) klippy_apis \<Rightarrow> listener list \<Rightarrow> status_update \<Rightarrow> 'k world \<Rightarrow> 'k world"
  where
  "deliver lk [] su w = w"
| "deliver lk (l # ls) su w = deliver lk ls su (snd (run_listener lk l su w))"

fun deliver_all ::
  "string + ('k, 'r) klippy_apis \<Rightarrow> listener list \<Rightarrow> status_update list \<Rightarrow> 'k world
     \<Rightarrow> 'k world" where
  "deliver_all lk ls [] w = w"
| "deliver_all lk ls (su # sus) w = deliver_all lk ls sus (deliver lk ls su w)"

definition resets :: "'k world \<Rightarrow> nat" where
  "resets w = length (filter (\<lambda>s. s = ''SDCARD_RESET_FILE'') (gcodes (calls w)))"

definition state_update :: "string \<Rightarrow> status_update" where
  "state_update s = [''print_stats'' \<mapsto> [''state'' \<mapsto> s]]"

text \<open>Two more example interpreters: one accepts everything, one is down.\<close>

definition ok_klippy :: "(unit, unit) klippy_apis" where
  "ok_klippy =
     \<lparr>run_gcode = (\<lambda>script k. (None, k)),
      query_objects = (\<lambda>obj k. (Inl ''no status'', k))\<rparr>"

definition down_klippy :: "(unit, unit) klippy_apis" where
  "down_klippy =
     \<lparr>run_gcode = (\<lambda>script k. (Some ''Klippy Host not connected'', k)),
      query_objects = (\<lambda>obj k. (Inl ''Klippy Host not connected'', k))\<rparr>"

section \<open>ToolDatabaseAPI\<close>

text \<open>
  A tool is a dictionary of the status object \<^verbatim>\<open>tool_database\<close>. The record holds
  the keys the handlers read, each possibly absent, and the names of the other keys;
  the numeric values are of any linearly ordered type with addition.
\<close>

record 'a tool =
  tool_id :: "int option"
  is_active :: "bool option"
  total_runtime :: "'a option"
  total_distance :: "'a option"
  other_keys :: "string list"

definition dict_truthy :: "'a tool \<Rightarrow> bool" where
  "dict_truthy t =
     (tool_id t \<noteq> None \<or> is_active t \<noteq> None \<or> total_runtime t \<noteq> None
      \<or> total_distance t \<noteq> None \<or> other_keys t \<noteq> [])"

record 'a tool_database =
  tools :: "'a tool list option"
  current_tool :: "'a tool option"

type_synonym 'a query_result = "string \<rightharpoonup> (string \<rightharpoonup> 'a tool_database)"

text \<open>\<^verbatim>\<open>result.get('status', {}).get('tool_database', {})\<close>\<close>

definition result_tool_database :: "'a query_result \<Rightarrow> 'a tool_database" where
  "result_tool_database result =
     (case result ''status'' of
        None \<Rightarrow> \<lparr>tools = None, current_tool = None\<rparr>
      | Some status \<Rightarrow>
          (case status ''tool_database'' of
             None \<Rightarrow> \<lparr>tools = None, current_tool = None\<rparr>
           | Some db \<Rightarrow> db))"

definition result_tools :: "'a query_result \<Rightarrow> 'a tool list" where
  "result_tools result =
     (case tools (result_tool_database result) of None \<Rightarrow> [] | Some ts \<Rightarrow> ts)"

text \<open>
  \<^verbatim>\<open>_run_gcode\<close> and \<^verbatim>\<open>_query_printer_objects\<close>: the connection is looked up
  (the lookup may raise) and the call is forwarded; nothing is caught.
\<close>

definition tdb_run_gcode ::
  "string + ('k, 'r) klippy_apis \<Rightarrow> string \<Rightarrow> 'k world \<Rightarrow> (exn + unit) \<times> 'k world" where
  "tdb_run_gcode printer gcode w =
     (case printer of
        Inl e \<Rightarrow> (Inl (Raised e), w)
      | Inr api \<Rightarrow>
          (case api_run_gcode api gcode w of
             (None, w') \<Rightarrow> (Inr (), w')
           | (Some e, w') \<Rightarrow> (Inl (Raised e), w')))"

definition tdb_query_printer_objects ::
  "string + ('k, 'r) klippy_apis \<Rightarrow> string \<Rightarrow> 'k world \<Rightarrow> (exn + 'r) \<times> 'k world" where
  "tdb_query_printer_objects printer obj w =
     (case printer of
        Inl e \<Rightarrow> (Inl (Raised e), w)
      | Inr api \<Rightarrow>
          (case api_query_objects api obj w of
             (Inr result, w') \<Rightarrow> (Inr result, w')
           | (Inl e, w') \<Rightarrow> (Inl (Raised e), w')))"

subsection \<open>Update\<close>

definition update_params :: "(string \<times> string \<times> string) list" where
  "update_params =
     [(''name'', ''NAME'', ''str''),
      (''type'', ''TYPE'', ''str''),
      (''diameter'', ''DIAMETER'', ''float''),
      (''length'', ''LENGTH'', ''float''),
      (''flute_length'', ''FLUTE_LENGTH'', ''float''),
      (''offset_x'', ''OFFSET_X'', ''float''),
      (''offset_y'', ''OFFSET_Y'', ''float''),
      (''offset_z'', ''OFFSET_Z'', ''float''),
      (''max_rpm'', ''MAX_RPM'', ''int''),
      (''feedrate'', ''FEEDRATE'', ''float''),
      (''plunge_rate'', ''PLUNGE_RATE'', ''float''),
      (''angle'', ''ANGLE'', ''float''),
      (''description'', ''DESCRIPTION'', ''str''),
      (''is_active'', ''IS_ACTIVE'', ''int''),
      (''max_runtime'', ''MAX_RUNTIME'', ''int''),
      (''max_distance'', ''MAX_DISTANCE'', ''float''),
      (''wear_warning_threshold'', ''WEAR_WARNING_THRESHOLD'', ''int'')]"

text \<open>
  One pass of the loop body. A getter that raises is swallowed by the bare
  \<^verbatim>\<open>except: pass\<close>; a missing key gives the default \<^verbatim>\<open>None\<close>. The rendering of a
  float by an f-string is a parameter, \<open>str_float\<close>.
\<close>

fun add_param ::
  "'f web_request \<Rightarrow> ('f \<Rightarrow> string) \<Rightarrow> string \<Rightarrow> string \<times> string \<times> string \<Rightarrow> string" where
  "add_param web_request str_float gcode (param_name, gcode_param, param_type) =
     (if param_type = ''str'' then
        (case str_args web_request param_name of
           Given v \<Rightarrow> gcode @ '' '' @ gcode_param @ ''='' @ [CHR 0x22] @ v @ [CHR 0x22]
         | _ \<Rightarrow> gcode)
      else if param_type = ''float'' then
        (case float_args web_request param_name of
           Given v \<Rightarrow> gcode @ '' '' @ gcode_param @ ''='' @ str_float v
         | _ \<Rightarrow> gcode)
      else if param_type = ''int'' then
        (case int_args web_request param_name of
           Given v \<Rightarrow> gcode @ '' '' @ gcode_param @ ''='' @ str_int v
         | _ \<Rightarrow> gcode)
      else gcode)"

text \<open>
  A getter called without a default: a missing key raises (the error names the key) as a
  failed conversion does.
\<close>

definition required :: "string \<Rightarrow> 'v arg \<Rightarrow> exn + 'v" where
  "required key a =
     (case a of
        Missing \<Rightarrow> Inl (ArgError key)
      | Invalid e \<Rightarrow> Inl (ArgError e)
      | Given v \<Rightarrow> Inr v)"

datatype jv = JBool bool | JStr string

definition handle_update_tool ::
  "string + ('k, 'r) klippy_apis \<Rightarrow> ('f \<Rightarrow> string) \<Rightarrow> 'f web_request \<Rightarrow> 'k world
     \<Rightarrow> (exn + (string \<times> jv) list) \<times> 'k world" where
  "handle_update_tool printer str_float web_request w =
     (case required ''id'' (int_args web_request ''id'') of
        Inl e \<Rightarrow> (Inl e, w)
      | Inr tid \<Rightarrow>
          (let gcode = foldl (add_param web_request str_float)
                         (''UPDATE_TOOL ID='' @ str_int tid) update_params
           in case tdb_run_gcode printer gcode w of
                (Inl e, w') \<Rightarrow> (Inl e, w')
              | (Inr u, w') \<Rightarrow>
                  (Inr [(''success'', JBool True),
                        (''message'',
                         JStr (''Tool '' @ str_int tid @ '' updated successfully''))], w')))"

subsection \<open>Info\<close>

text \<open>
  \<^verbatim>\<open>next((t for t in tools if t['id'] == tool_id), None)\<close>: the subscript raises
  \<^verbatim>\<open>KeyError\<close> on a tool without the key.
\<close>

fun find_tool :: "'a tool list \<Rightarrow> int \<Rightarrow> exn + 'a tool option" where
  "find_tool [] i = Inr None"
| "find_tool (t # ts) i =
     (case tool_id t of
        None \<Rightarrow> Inl (KeyError ''id'')
      | Some j \<Rightarrow> if j = i then Inr (Some t) else find_tool ts i)"

definition not_found :: exn where
  "not_found = HTTPError 404 ''Tool not found''"

definition handle_tool_info ::
  "string + ('k, 'a query_result) klippy_apis \<Rightarrow> 'f web_request \<Rightarrow> 'k world
     \<Rightarrow> (exn + 'a tool) \<times> 'k world" where
  "handle_tool_info printer web_request w =
     (case int_args web_request ''id'' of
        Invalid e \<Rightarrow> (Inl (ArgError e), w)
      | a \<Rightarrow>
          (let tid = (case a of Given i \<Rightarrow> (if i \<noteq> 0 then Some i else None) | _ \<Rightarrow> None);
               gcode = (case tid of Some i \<Rightarrow> ''TOOL_INFO ID='' @ str_int i
                                  | None \<Rightarrow> ''TOOL_INFO'')
           in case tdb_run_gcode printer gcode w of
                (Inl e, w1) \<Rightarrow> (Inl e, w1)
              | (Inr u, w1) \<Rightarrow>
                  (case tdb_query_printer_objects printer ''tool_database'' w1 of
                     (Inl e, w2) \<Rightarrow> (Inl e, w2)
                   | (Inr result, w2) \<Rightarrow>
                       (case tid of
                          Some i \<Rightarrow>
                            (case find_tool (result_tools result) i of
                               Inl e \<Rightarrow> (Inl e, w2)
                             | Inr None \<Rightarrow> (Inl not_found, w2)
                             | Inr (Some t) \<Rightarrow>
                                 if dict_truthy t then (Inr t, w2) else (Inl not_found, w2))
                        | None \<Rightarrow>
                            (case current_tool (result_tool_database result) of
                               None \<Rightarrow> (Inl not_found, w2)
                             | Some t \<Rightarrow>
                                 if dict_truthy t then (Inr t, w2)
                                 else (Inl not_found, w2))))))"

subsection \<open>Stats\<close>

text \<open>
  \<^verbatim>\<open>max(tools, key=...)\<close> on a non-empty list: the first item is the candidate, and a
  later item replaces it only when its key is greater.
\<close>

fun max_from :: "('t \<Rightarrow> 'b::linorder) \<Rightarrow> 't \<Rightarrow> 't list \<Rightarrow> 't" where
  "max_from key best [] = best"
| "max_from key best (x # xs) = max_from key (if key best < key x then x else best) xs"

definition runtime_key :: "('a::{linorder, monoid_add}) tool \<Rightarrow> 'a" where
  "runtime_key t = (case total_runtime t of None \<Rightarrow> 0 | Some r \<Rightarrow> r)"

definition distance_key :: "('a::{linorder, monoid_add}) tool \<Rightarrow> 'a" where
  "distance_key t = (case total_distance t of None \<Rightarrow> 0 | Some r \<Rightarrow> r)"

definition active_key :: "'a tool \<Rightarrow> bool" where
  "active_key t = (case is_active t of None \<Rightarrow> True | Some b \<Rightarrow> b)"

definition most_used :: "('a::{linorder, monoid_add}) tool list \<Rightarrow> 'a tool option" where
  "most_used ts = (case ts of [] \<Rightarrow> None | t # rest \<Rightarrow> Some (max_from runtime_key t rest))"

record 'a stats =
  tool_count :: nat
  active_tools :: nat
  inactive_tools :: nat
  stats_total_runtime :: 'a
  stats_total_distance :: 'a
  most_used_tool :: "'a tool option"

definition handle_tool_stats ::
  "string + ('k, ('a::{linorder, monoid_add}) query_result) klippy_apis \<Rightarrow> 'f web_request
     \<Rightarrow> 'k world \<Rightarrow> (exn + 'a stats) \<times> 'k world" where
  "handle_tool_stats printer web_request w =
     (case tdb_query_printer_objects printer ''tool_database'' w of
        (Inl e, w') \<Rightarrow> (Inl e, w')
      | (Inr result, w') \<Rightarrow>
          (let ts = result_tools result
           in (Inr \<lparr>tool_count = length ts,
                    active_tools = length (filter active_key ts),
                    inactive_tools = length (filter (\<lambda>t. \<not> active_key t) ts),
                    stats_total_runtime = foldl (+) 0 (map runtime_key ts),
                    stats_total_distance = foldl (+) 0 (map distance_key ts),
                    most_used_tool = most_used ts\<rparr>, w')))"

text \<open>Example data for concrete runs: a tool listing and an interpreter that reports it.\<close>

definition mk_tool :: "int \<Rightarrow> int option \<Rightarrow> int tool" where
  "mk_tool i r =
     \<lparr>tool_id = Some i, is_active = None, total_runtime = r, total_distance = None,
      other_keys = [''name'']\<rparr>"

definition db_result :: "int tool list \<Rightarrow> int tool option \<Rightarrow> int query_result" where
  "db_result ts cur =
     [''status'' \<mapsto> [''tool_database'' \<mapsto> \<lparr>tools = Some ts, current_tool = cur\<rparr>]]"

definition db_klippy :: "int tool list \<Rightarrow> int tool option \<Rightarrow> (unit, int query_result) klippy_apis"
  where
  "db_klippy ts cur =
     \<lparr>run_gcode = (\<lambda>script k. (None, k)),
      query_objects = (\<lambda>obj k. (Inr (db_result ts cur), k))\<rparr>"

definition tool_request :: "(string \<times> string arg) list \<Rightarrow> (string \<times> int arg) list \<Rightarrow> unit web_request"
  where
  "tool_request strs ints =
     \<lparr>request_type = TypeFlag POST, raw_args = Map.empty,
      str_args = (\<lambda>k. case map_of strs k of None \<Rightarrow> Missing | Some a \<Rightarrow> a),
      int_args = (\<lambda>k. case map_of ints k of None \<Rightarrow> Missing | Some a \<Rightarrow> a),
      float_args = (\<lambda>_. Missing)\<rparr>"

section \<open>Specification-side definitions\<close>





text \<open>
  A request with the key \<^verbatim>\<open>id\<close> removed, and the resolution of a bare tool query:
  the current tool when there is one, the 404 otherwise.
\<close>

definition no_id :: "'f web_request \<Rightarrow> 'f web_request" where
  "no_id q = q\<lparr>int_args := (int_args q)(''id'' := Missing)\<rparr>"

definition resolve_current :: "'a query_result \<Rightarrow> exn + 'a tool" where
  "resolve_current result =
     (case current_tool (result_tool_database result) of
        None \<Rightarrow> Inl not_found
      | Some t \<Rightarrow> if dict_truthy t then Inr t else Inl not_found)"

section \<open>Example requests and data\<close>

definition post_as_flag :: "string \<Rightarrow> unit web_request" where
  "post_as_flag action = request (TypeFlag POST) [(''action'', PyStr action)]"

definition post_as_string :: "string \<Rightarrow> unit web_request" where
  "post_as_string action = request (TypeStr ''POST'') [(''action'', PyStr action)]"


definition example_tools :: "int tool list" where
  "example_tools = [mk_tool 1 (Some 5), mk_tool 2 None, mk_tool 3 (Some 9), mk_tool 4 (Some 9)]"

definition zero_id_request :: "unit web_request" where
  "zero_id_request = tool_request [] [(''id'', Given 0)]"

definition info_tools :: "int tool list" where
  "info_tools = [mk_tool 0 (Some 1), mk_tool 7 None]"

section \<open>Shared facts about calls\<close>

lemma api_run_gcode_eq:
  "run_gcode api c (kstate w) = (r, k') \<Longrightarrow>
   api_run_gcode api c w = (r, w\<lparr>kstate := k', calls := calls w @ [(Gcode c, r)]\<rparr>)"
  by (simp add: api_run_gcode_def)


lemma gcodes_append: "gcodes (xs @ ys) = gcodes xs @ gcodes ys"
  by (induction xs rule: gcodes.induct) simp_all

section \<open>Facts about the modal state handler\<close>

text \<open>
  A request whose type is a flag member matches none of the three comparisons with a
  string; a handler that is not connected answers before it looks at the request.
\<close>

lemma flag_request_unhandled:
  "request_type q = TypeFlag f \<Longrightarrow>
   handle_modal_state (Some api) sf q w
     = (Inr [(''result'', ''error''), (''message'', ''Invalid request type'')], w)"
  by (simp add: handle_modal_state_def)

lemma not_connected_answer:
  "handle_modal_state None sf q w
     = (Inr [(''result'', ''error''), (''message'', ''Klippy not connected'')], w)"
  by (simp add: handle_modal_state_def)

text \<open>The POST branch, for an action of the table, once the dispatch has reached it.\<close>

lemma modal_post_result:
  assumes "request_type q = TypeStr ''POST''"
    and "(case raw_args q ''action'' of None \<Rightarrow> PyStr ''save'' | Some a \<Rightarrow> a) = PyStr action"
    and "command_map action = Some c" and "c \<noteq> []"
    and "run_gcode api c (kstate w) = (r, k')"
  shows "handle_modal_state (Some api) sf q w
           = (Inr (case r of
                     None \<Rightarrow> [(''result'', ''success''), (''action'', action), (''command'', c)]
                   | Some e \<Rightarrow> [(''result'', ''error''), (''message'', e)]),
              w\<lparr>kstate := k', calls := calls w @ [(Gcode c, r)]\<rparr>)"
  using assms api_run_gcode_eq[OF assms(5)]
  by (cases r) (simp_all add: handle_modal_state_def)

text \<open>
  The outcomes of a POST request with an action of the table, whichever way its type is
  given and whether the handler is connected or not.
\<close>

lemma known_action_outcomes:
  assumes "request_type q = TypeStr ''POST'' \<or> request_type q = TypeFlag POST"
    and "(case raw_args q ''action'' of None \<Rightarrow> PyStr ''save'' | Some a \<Rightarrow> a) = PyStr action"
    and "command_map action = Some c" and "c \<noteq> []"
  shows "\<exists>ans. fst (handle_modal_state ka sf q w) = Inr ans
          \<and> (ans = [(''result'', ''error''), (''message'', ''Klippy not connected'')]
                \<and> calls (snd (handle_modal_state ka sf q w)) = calls w
              \<or> ans = [(''result'', ''error''), (''message'', ''Invalid request type'')]
                \<and> calls (snd (handle_modal_state ka sf q w)) = calls w
              \<or> ans = [(''result'', ''success''), (''action'', action), (''command'', c)]
                \<and> calls (snd (handle_modal_state ka sf q w)) = calls w @ [(Gcode c, None)]
              \<or> (\<exists>e. ans = [(''result'', ''error''), (''message'', e)]
                \<and> calls (snd (handle_modal_state ka sf q w)) = calls w @ [(Gcode c, Some e)]))"
proof (cases ka)
  case None
  then show ?thesis by (simp add: not_connected_answer)
next
  case (Some api)
  show ?thesis
  proof (cases "request_type q = TypeFlag POST")
    case True
    then show ?thesis using Some by (simp add: flag_request_unhandled)
  next
    case False
    with assms(1) have p: "request_type q = TypeStr ''POST''" by simp
    obtain r k' where rk: "run_gcode api c (kstate w) = (r, k')"
      by (cases "run_gcode api c (kstate w)")
    from modal_post_result[OF p assms(2) assms(3) assms(4) rk, of sf] Some
    show ?thesis by (cases r) simp_all
  qed
qed

section \<open>Clearing all modal states\<close>

lemma clear_states_calls:
  "\<exists>k tl. calls (clear_states api n w) = calls w @ replicate k (Gcode ''M71'', None) @ tl
     \<and> (tl = [] \<and> k = n \<or> (\<exists>e. tl = [(Gcode ''M71'', Some e)]) \<and> k < n)"
proof (induction n arbitrary: w)
  case 0
  show ?case by simp
next
  case (Suc n)
  obtain r k' where rk: "run_gcode api ''M71'' (kstate w) = (r, k')"
    by (cases "run_gcode api ''M71'' (kstate w)")
  define w' where "w' = w\<lparr>kstate := k', calls := calls w @ [(Gcode ''M71'', r)]\<rparr>"
  have step: "api_run_gcode api ''M71'' w = (r, w')"
    by (simp add: api_run_gcode_def rk w'_def)
  show ?case
  proof (cases r)
    case None
    from Suc.IH[of w'] obtain k tl where
      c: "calls (clear_states api n w') = calls w' @ replicate k (Gcode ''M71'', None) @ tl"
      and d: "tl = [] \<and> k = n \<or> (\<exists>e. tl = [(Gcode ''M71'', Some e)]) \<and> k < n"
      by blast
    have "calls (clear_states api (Suc n) w)
            = calls w @ replicate (Suc k) (Gcode ''M71'', None) @ tl"
      using c None step by (simp add: w'_def)
    moreover have "tl = [] \<and> Suc k = Suc n \<or> (\<exists>e. tl = [(Gcode ''M71'', Some e)]) \<and> Suc k < Suc n"
      using d by auto
    ultimately show ?thesis by blast
  next
    case (Some e)
    have "calls (clear_states api (Suc n) w)
            = calls w @ replicate 0 (Gcode ''M71'', None) @ [(Gcode ''M71'', Some e)]"
      using Some step by (simp add: w'_def)
    then show ?thesis by blast
  qed
qed



text \<open>
  C4. A DELETE on the modal state endpoint makes at most ten \<^verbatim>\<open>M71\<close> calls and
  nothing else: a run of accepted discards, followed by at most one rejected discard,
  after which the handler stops. Either all ten were accepted, or the run ended at the
  first rejection before the tenth, or the handler made no call at all (it is not
  connected, or the request type is the flag member and the DELETE branch is not
  reached). The handler returns a result in every case; the loop is a structural
  recursion on the number of iterations left, so it ends.
\<close>

theorem invalidate_all_bounded:
  assumes "request_type q = TypeStr ''DELETE'' \<or> request_type q = TypeFlag DELETE"
  shows "\<exists>k tl. calls (snd (handle_modal_state ka sf q w))
                  = calls w @ replicate k (Gcode ''M71'', None) @ tl
          \<and> (tl = [] \<and> (k = 10 \<or> k = 0 \<and> (ka = None \<or> request_type q = TypeFlag DELETE))
               \<or> (\<exists>e. tl = [(Gcode ''M71'', Some e)]) \<and> k < 10)
          \<and> k + length tl \<le> 10
          \<and> (\<exists>r. fst (handle_modal_state ka sf q w) = Inr r)"
proof (cases "ka = None \<or> request_type q = TypeFlag DELETE")
  case True
  have "calls (snd (handle_modal_state ka sf q w)) = calls w @ replicate 0 (Gcode ''M71'', None) @ []
        \<and> (\<exists>r. fst (handle_modal_state ka sf q w) = Inr r)"
  proof (cases ka)
    case None
    then show ?thesis by (simp add: not_connected_answer)
  next
    case (Some api)
    with True have "request_type q = TypeFlag DELETE" by simp
    then show ?thesis using Some by (simp add: flag_request_unhandled)
  qed
  then show ?thesis using True by (intro exI[of _ 0] exI[of _ "[]"]) simp
next
  case False
  then obtain api where ka: "ka = Some api" by auto
  from False assms have d: "request_type q = TypeStr ''DELETE''" by simp
  have h: "handle_modal_state ka sf q w
        = (Inr [(''result'', ''success''), (''message'', ''All modal states cleared'')],
           clear_states api 10 w)"
    using ka d by (simp add: handle_modal_state_def)
  from clear_states_calls[of api 10 w] obtain k tl where
    c: "calls (clear_states api 10 w) = calls w @ replicate k (Gcode ''M71'', None) @ tl"
    and e: "tl = [] \<and> k = 10 \<or> (\<exists>e. tl = [(Gcode ''M71'', Some e)]) \<and> k < 10"
    by blast
  from e have "k + length tl \<le> 10" by auto
  with c e h show ?thesis by (intro exI[of _ k] exI[of _ tl]) auto
qed

theorem invalidate_all_bounded_witness:
  "request_type (request (TypeStr ''DELETE'') []) = TypeStr ''DELETE''
   \<and> (\<exists>k tl. calls (snd (handle_modal_state (Some stack_klippy) no_float
                           (request (TypeStr ''DELETE'') []) (world0 3)))
                = calls (world0 (3::nat)) @ replicate k (Gcode ''M71'', None) @ tl
          \<and> (tl = [] \<and> k = 10 \<or> (\<exists>e. tl = [(Gcode ''M71'', Some e)]) \<and> k < 10)
          \<and> k + length tl \<le> 10
          \<and> (\<exists>r. fst (handle_modal_state (Some stack_klippy) no_float
                        (request (TypeStr ''DELETE'') []) (world0 3))
                   = Inr r))
   \<and> request_type (request (TypeFlag DELETE) []) = TypeFlag DELETE
   \<and> (\<exists>k tl. calls (snd (handle_modal_state (Some stack_klippy) no_float
                           (request (TypeFlag DELETE) []) (world0 3)))
                = calls (world0 (3::nat)) @ replicate k (Gcode ''M71'', None) @ tl
          \<and> k + length tl \<le> 10
          \<and> (\<exists>r. fst (handle_modal_state (Some stack_klippy) no_float
                        (request (TypeFlag DELETE) []) (world0 3))
                   = Inr r))"
  using invalidate_all_bounded[of "request (TypeStr ''DELETE'') []" "Some stack_klippy" no_float
      "world0 3"]
    invalidate_all_bounded[of "request (TypeFlag DELETE) []" "Some stack_klippy" no_float
      "world0 3"]
  by (simp add: request_def) blast

text \<open>
  The same runs, computed: with three saved states the DELETE branch sends four
  discards, the fourth of which the interpreter rejects; the request with the flag
  member sends none.
\<close>

lemma invalidate_all_example:
  "handle_modal_state (Some stack_klippy) no_float (request (TypeStr ''DELETE'') []) (world0 3)
     = (Inr [(''result'', ''success''), (''message'', ''All modal states cleared'')],
        \<lparr>kstate = 0,
         calls = [(Gcode ''M71'', None), (Gcode ''M71'', None), (Gcode ''M71'', None),
                  (Gcode ''M71'', Some ''No modal state saved'')],
         logging = []\<rparr>)
   \<and> handle_modal_state (Some stack_klippy) no_float (request (TypeFlag DELETE) []) (world0 3)
     = (Inr [(''result'', ''error''), (''message'', ''Invalid request type'')], world0 3)"
  by (simp add: handle_modal_state_def request_def world0_def stack_klippy_def
      api_run_gcode_def eval_nat_numeral)

section \<open>The command vocabulary of the modal state endpoint\<close>

lemma dom_command_map:
  "dom command_map = {''save'', ''restore'', ''invalidate'', ''auto_save''}"
  by (auto simp: command_map_def split: if_splits)

lemma command_map_None:
  "a \<notin> {''save'', ''restore'', ''invalidate'', ''auto_save''} \<Longrightarrow> command_map a = None"
  using dom_command_map by blast

lemma command_map_inj: "inj_on command_map (dom command_map)"
  unfolding dom_command_map by (simp add: command_map_def)

text \<open>
  What the POST branch does once the dispatch has reached it: \<^verbatim>\<open>save\<close> sends
  \<^verbatim>\<open>M70\<close>, \<^verbatim>\<open>restore\<close> \<^verbatim>\<open>M72\<close>, \<^verbatim>\<open>invalidate\<close> \<^verbatim>\<open>M71\<close> and
  \<^verbatim>\<open>auto_save\<close> \<^verbatim>\<open>M73\<close>, one call each; another string is answered with
  \<^verbatim>\<open>Invalid action\<close> and no call; a list or a dictionary raises.
\<close>

lemma post_branch_vocabulary:
  assumes "request_type q = TypeStr ''POST''"
    and "(case raw_args q ''action'' of None \<Rightarrow> PyStr ''save'' | Some a \<Rightarrow> a) = PyStr action"
  shows "(action = ''save'' \<longrightarrow>
            (\<exists>r. calls (snd (handle_modal_state (Some api) sf q w)) = calls w @ [(Gcode ''M70'', r)]))
       \<and> (action = ''restore'' \<longrightarrow>
            (\<exists>r. calls (snd (handle_modal_state (Some api) sf q w)) = calls w @ [(Gcode ''M72'', r)]))
       \<and> (action = ''invalidate'' \<longrightarrow>
            (\<exists>r. calls (snd (handle_modal_state (Some api) sf q w)) = calls w @ [(Gcode ''M71'', r)]))
       \<and> (action = ''auto_save'' \<longrightarrow>
            (\<exists>r. calls (snd (handle_modal_state (Some api) sf q w)) = calls w @ [(Gcode ''M73'', r)]))
       \<and> (action \<notin> {''save'', ''restore'', ''invalidate'', ''auto_save''} \<longrightarrow>
            handle_modal_state (Some api) sf q w = (Inr (invalid_action action), w))"
proof -
  have known: "\<exists>r. calls (snd (handle_modal_state (Some api) sf q w)) = calls w @ [(Gcode c, r)]"
    if "command_map action = Some c" "c \<noteq> []" for c
  proof -
    obtain r k' where rk: "run_gcode api c (kstate w) = (r, k')"
      by (cases "run_gcode api c (kstate w)")
    from modal_post_result[OF assms(1) assms(2) that rk, of sf] show ?thesis by simp
  qed
  have 1: "action = ''save'' \<longrightarrow>
            (\<exists>r. calls (snd (handle_modal_state (Some api) sf q w)) = calls w @ [(Gcode ''M70'', r)])"
    using known[of "''M70''"] by (simp add: command_map_def)
  have 2: "action = ''restore'' \<longrightarrow>
            (\<exists>r. calls (snd (handle_modal_state (Some api) sf q w)) = calls w @ [(Gcode ''M72'', r)])"
    using known[of "''M72''"] by (simp add: command_map_def)
  have 3: "action = ''invalidate'' \<longrightarrow>
            (\<exists>r. calls (snd (handle_modal_state (Some api) sf q w)) = calls w @ [(Gcode ''M71'', r)])"
    using known[of "''M71''"] by (simp add: command_map_def)
  have 4: "action = ''auto_save'' \<longrightarrow>
            (\<exists>r. calls (snd (handle_modal_state (Some api) sf q w)) = calls w @ [(Gcode ''M73'', r)])"
    using known[of "''M73''"] by (simp add: command_map_def)
  have 5: "action \<notin> {''save'', ''restore'', ''invalidate'', ''auto_save''} \<longrightarrow>
            handle_modal_state (Some api) sf q w = (Inr (invalid_action action), w)"
  proof
    assume "action \<notin> {''save'', ''restore'', ''invalidate'', ''auto_save''}"
    then have "command_map action = None" by (rule command_map_None)
    then show "handle_modal_state (Some api) sf q w = (Inr (invalid_action action), w)"
      using assms by (simp add: handle_modal_state_def)
  qed
  from 1 2 3 4 5 show ?thesis by blast
qed

lemma post_branch_unhashable:
  assumes "request_type q = TypeStr ''POST''"
    and "raw_args q ''action'' = Some (PyList xs) \<or> raw_args q ''action'' = Some (PyDict kvs)"
  shows "\<exists>m. handle_modal_state (Some api) sf q w = (Inl (TypeError m), w)"
  using assms by (auto simp: handle_modal_state_def)

text \<open>
  C8. The claim asks that a POST request with the action \<^verbatim>\<open>save\<close>, \<^verbatim>\<open>restore\<close>,
  \<^verbatim>\<open>invalidate\<close> or \<^verbatim>\<open>auto_save\<close> issue \<^verbatim>\<open>M70\<close>, \<^verbatim>\<open>M72\<close>, \<^verbatim>\<open>M71\<close> or
  \<^verbatim>\<open>M73\<close>. The handler does not do so: the type of a POST request is the flag member,
  the comparison with the string \<^verbatim>\<open>POST\<close> is false, and a connected handler answers
  each of the four actions with \<^verbatim>\<open>Invalid request type\<close> and sends nothing.
\<close>

theorem post_request_not_dispatched:
  "handle_modal_state (Some stack_klippy) no_float (post_as_flag ''save'') (world0 0)
     = (Inr [(''result'', ''error''), (''message'', ''Invalid request type'')], world0 0)
   \<and> handle_modal_state (Some stack_klippy) no_float (post_as_flag ''restore'') (world0 1)
     = (Inr [(''result'', ''error''), (''message'', ''Invalid request type'')], world0 1)
   \<and> handle_modal_state (Some stack_klippy) no_float (post_as_flag ''invalidate'') (world0 1)
     = (Inr [(''result'', ''error''), (''message'', ''Invalid request type'')], world0 1)
   \<and> handle_modal_state (Some stack_klippy) no_float (post_as_flag ''auto_save'') (world0 0)
     = (Inr [(''result'', ''error''), (''message'', ''Invalid request type'')], world0 0)"
  by (simp add: handle_modal_state_def post_as_flag_def request_def)

section \<open>The completion listeners\<close>

lemma resets_m30:
  "resets (snd (check_m30_execution (Inr api) su w))
     = resets w + (if is_complete su then 1 else 0)"
proof -
  obtain r k' where rk: "run_gcode api ''SDCARD_RESET_FILE'' (kstate w) = (r, k')"
    by (cases "run_gcode api ''SDCARD_RESET_FILE'' (kstate w)")
  show ?thesis
    using api_run_gcode_eq[OF rk]
    by (cases r) (simp_all add: check_m30_execution_def resets_def log_msg_def gcodes_append)
qed

lemma resets_restart:
  "resets (snd (check_restart_execution (Inr api) su w))
     = resets w + (if is_complete su then 1 else 0)"
proof -
  obtain r k' where rk: "run_gcode api ''SDCARD_RESET_FILE'' (kstate w) = (r, k')"
    by (cases "run_gcode api ''SDCARD_RESET_FILE'' (kstate w)")
  show ?thesis
    using api_run_gcode_eq[OF rk]
    by (cases r) (simp_all add: check_restart_execution_def resets_def log_msg_def gcodes_append)
qed

lemma resets_run_listener:
  "resets (snd (run_listener (Inr api) l su w)) = resets w + (if is_complete su then 1 else 0)"
  by (cases l) (simp_all only: run_listener.simps resets_m30 resets_restart)

lemma resets_deliver:
  "resets (deliver (Inr api) ls su w) = resets w + (if is_complete su then length ls else 0)"
  by (induction ls arbitrary: w) (simp_all add: resets_run_listener)

text \<open>
  C1, as the claim states it, fails: one update with state \<^verbatim>\<open>complete\<close> delivered to
  the two registered listeners yields two reset commands, and the same update delivered
  twice to one listener yields two as well.
\<close>

theorem completion_resets_twice:
  "resets (deliver (Inr ok_klippy) [M30Listener, M2RestartListener]
             (state_update ''complete'') (world0 ())) = 2
   \<and> resets (deliver_all (Inr ok_klippy) [M30Listener]
             [state_update ''complete'', state_update ''complete''] (world0 ())) = 2"
  by (simp add: resets_def check_m30_execution_def check_restart_execution_def is_complete_def
      state_update_def api_run_gcode_def ok_klippy_def world0_def log_msg_def)

text \<open>
  C1, amended. Each listener sends \<^verbatim>\<open>SDCARD_RESET_FILE\<close> once for every update with
  state \<^verbatim>\<open>complete\<close> it receives, as long as the interpreter component is found: the
  number of reset commands grows by the number of listeners times the number of such
  updates. Updates with another state, a start of a program among them, change nothing.
\<close>

theorem resets_per_listener_and_delivery:
  "resets (deliver_all (Inr api) ls sus w)
     = resets w + length ls * length (filter is_complete sus)"
  by (induction sus arbitrary: w) (simp_all add: resets_deliver)

theorem resets_per_listener_and_delivery_witness:
  "resets (deliver_all (Inr ok_klippy) [M30Listener, M2RestartListener]
             [state_update ''complete'', state_update ''printing'', state_update ''complete'']
             (world0 ()))
     = 4"
  using resets_per_listener_and_delivery[of ok_klippy "[M30Listener, M2RestartListener]"
      "[state_update ''complete'', state_update ''printing'', state_update ''complete'']"
      "world0 ()"]
  by (simp add: is_complete_def state_update_def resets_def world0_def)

text \<open>
  C5. When the reset command raises, either listener returns normally, has made exactly
  one call (the failed one), and has logged one record, at level DEBUG; nothing else
  changes, so the command is not sent again. When already the lookup of the interpreter
  component raises, the listener returns normally as well, with the one DEBUG record and
  no call.
\<close>

theorem failed_reset_swallowed:
  fixes api :: "('k, 'r) klippy_apis"
  assumes "is_complete su"
    and "run_gcode api ''SDCARD_RESET_FILE'' (kstate w) = (Some e, k')"
  shows "check_m30_execution (Inr api) su w
           = (Inr (), w\<lparr>kstate := k',
                        calls := calls w @ [(Gcode ''SDCARD_RESET_FILE'', Some e)],
                        logging := logging w @ [(DEBUG, ''Could not reset file position: '' @ e)]\<rparr>)
       \<and> check_restart_execution (Inr api) su w
           = (Inr (), w\<lparr>kstate := k',
                        calls := calls w @ [(Gcode ''SDCARD_RESET_FILE'', Some e)],
                        logging := logging w @ [(DEBUG, ''Could not reset file position: '' @ e)]\<rparr>)
       \<and> check_m30_execution (Inl m :: string + ('k, 'r) klippy_apis) su w
           = (Inr (), w\<lparr>logging := logging w @ [(DEBUG, ''Could not reset file position: '' @ m)]\<rparr>)
       \<and> check_restart_execution (Inl m :: string + ('k, 'r) klippy_apis) su w
           = (Inr (), w\<lparr>logging := logging w @ [(DEBUG, ''Could not reset file position: '' @ m)]\<rparr>)"
  using assms api_run_gcode_eq[OF assms(2)]
  by (simp add: check_m30_execution_def check_restart_execution_def log_msg_def)

theorem failed_reset_swallowed_witness:
  "is_complete (state_update ''complete'')
   \<and> run_gcode down_klippy ''SDCARD_RESET_FILE'' (kstate (world0 ()))
       = (Some ''Klippy Host not connected'', ())
   \<and> check_m30_execution (Inr down_klippy) (state_update ''complete'') (world0 ())
       = (Inr (), \<lparr>kstate = (),
                   calls = [(Gcode ''SDCARD_RESET_FILE'', Some ''Klippy Host not connected'')],
                   logging = [(DEBUG, ''Could not reset file position: Klippy Host not connected'')]\<rparr>)
   \<and> check_restart_execution (Inr down_klippy) (state_update ''complete'') (world0 ())
       = (Inr (), \<lparr>kstate = (),
                   calls = [(Gcode ''SDCARD_RESET_FILE'', Some ''Klippy Host not connected'')],
                   logging = [(DEBUG, ''Could not reset file position: Klippy Host not connected'')]\<rparr>)"
  using failed_reset_swallowed[of "state_update ''complete''" down_klippy "world0 ()"
      "''Klippy Host not connected''" "()" "''Component not found''"]
  by (simp add: is_complete_def state_update_def down_klippy_def world0_def)

section \<open>Save, restore and invalidate\<close>

text \<open>
  C2 does not hold as stated. With ten states saved, a save request to a connected
  handler is answered with \<^verbatim>\<open>Invalid request type\<close>, the very answer it gets on the
  empty stack: nothing in the answer is about capacity. And where the type of the request
  is given as the string, so that the POST branch is reached, \<^verbatim>\<open>M70\<close> is sent to the
  full interpreter all the same, and the answer carries the interpreter's message.
\<close>

theorem save_at_bound_not_capacity:
  "handle_modal_state (Some stack_klippy) no_float (post_as_flag ''save'') (world0 10)
     = (Inr [(''result'', ''error''), (''message'', ''Invalid request type'')], world0 10)
   \<and> handle_modal_state (Some stack_klippy) no_float (post_as_flag ''save'') (world0 0)
     = (Inr [(''result'', ''error''), (''message'', ''Invalid request type'')], world0 0)
   \<and> handle_modal_state (Some stack_klippy) no_float (post_as_string ''save'') (world0 10)
     = (Inr [(''result'', ''error''), (''message'', ''Modal state stack full'')],
        \<lparr>kstate = 10, calls = [(Gcode ''M70'', Some ''Modal state stack full'')], logging = []\<rparr>)"
  by (simp add: handle_modal_state_def post_as_flag_def post_as_string_def request_def
      world0_def stack_klippy_def command_map_def api_run_gcode_def)

text \<open>
  C2, amended. The handler keeps no depth and has no capacity result. A save request
  (the action \<^verbatim>\<open>save\<close>, or no action) never raises and makes at most one call, which
  is then \<^verbatim>\<open>M70\<close>. Its answer is \<^verbatim>\<open>Klippy not connected\<close> or
  \<^verbatim>\<open>Invalid request type\<close>, with no call; or success, when \<^verbatim>\<open>M70\<close> was sent and
  accepted; or the error result with the interpreter's message, when \<^verbatim>\<open>M70\<close> was
  sent and rejected.
\<close>

theorem save_has_no_capacity_check:
  assumes "request_type q = TypeStr ''POST'' \<or> request_type q = TypeFlag POST"
    and "raw_args q ''action'' = Some (PyStr ''save'') \<or> raw_args q ''action'' = None"
  shows "\<exists>ans. fst (handle_modal_state ka sf q w) = Inr ans
          \<and> (ans = [(''result'', ''error''), (''message'', ''Klippy not connected'')]
                \<and> calls (snd (handle_modal_state ka sf q w)) = calls w
              \<or> ans = [(''result'', ''error''), (''message'', ''Invalid request type'')]
                \<and> calls (snd (handle_modal_state ka sf q w)) = calls w
              \<or> ans = [(''result'', ''success''), (''action'', ''save''), (''command'', ''M70'')]
                \<and> calls (snd (handle_modal_state ka sf q w)) = calls w @ [(Gcode ''M70'', None)]
              \<or> (\<exists>e. ans = [(''result'', ''error''), (''message'', e)]
                \<and> calls (snd (handle_modal_state ka sf q w)) = calls w @ [(Gcode ''M70'', Some e)]))"
proof -
  have "(case raw_args q ''action'' of None \<Rightarrow> PyStr ''save'' | Some a \<Rightarrow> a) = PyStr ''save''"
    using assms(2) by auto
  moreover have "command_map ''save'' = Some ''M70''" by (simp add: command_map_def)
  ultimately show ?thesis
    using known_action_outcomes[OF assms(1), of "''save''" "''M70''" ka sf w] by simp
qed

theorem save_has_no_capacity_check_witness:
  "request_type (post_as_flag ''save'') = TypeFlag POST
   \<and> raw_args (post_as_flag ''save'') ''action'' = Some (PyStr ''save'')
   \<and> fst (handle_modal_state (Some stack_klippy) no_float (post_as_flag ''save'') (world0 10))
       = Inr [(''result'', ''error''), (''message'', ''Invalid request type'')]
   \<and> calls (snd (handle_modal_state (Some stack_klippy) no_float (post_as_flag ''save'') (world0 10)))
       = calls (world0 (10::nat))
   \<and> request_type (post_as_string ''save'') = TypeStr ''POST''
   \<and> raw_args (post_as_string ''save'') ''action'' = Some (PyStr ''save'')
   \<and> fst (handle_modal_state (Some stack_klippy) no_float (post_as_string ''save'') (world0 2))
       = Inr [(''result'', ''success''), (''action'', ''save''), (''command'', ''M70'')]
   \<and> calls (snd (handle_modal_state (Some stack_klippy) no_float (post_as_string ''save'') (world0 2)))
       = calls (world0 (2::nat)) @ [(Gcode ''M70'', None)]"
proof -
  have f: "request_type (post_as_flag ''save'') = TypeStr ''POST''
             \<or> request_type (post_as_flag ''save'') = TypeFlag POST"
    and fa: "raw_args (post_as_flag ''save'') ''action'' = Some (PyStr ''save'')
             \<or> raw_args (post_as_flag ''save'') ''action'' = None"
    by (simp_all add: post_as_flag_def request_def)
  have s: "request_type (post_as_string ''save'') = TypeStr ''POST''
             \<or> request_type (post_as_string ''save'') = TypeFlag POST"
    and sa: "raw_args (post_as_string ''save'') ''action'' = Some (PyStr ''save'')
             \<or> raw_args (post_as_string ''save'') ''action'' = None"
    by (simp_all add: post_as_string_def request_def)
  note a = save_has_no_capacity_check[OF f fa, of "Some stack_klippy" no_float "world0 10"]
  note b = save_has_no_capacity_check[OF s sa, of "Some stack_klippy" no_float "world0 2"]
  have c: "handle_modal_state (Some stack_klippy) no_float (post_as_flag ''save'') (world0 10)
             = (Inr [(''result'', ''error''), (''message'', ''Invalid request type'')], world0 10)"
    by (simp add: handle_modal_state_def post_as_flag_def request_def)
  have d: "handle_modal_state (Some stack_klippy) no_float (post_as_string ''save'') (world0 2)
             = (Inr [(''result'', ''success''), (''action'', ''save''), (''command'', ''M70'')],
                \<lparr>kstate = 3, calls = [(Gcode ''M70'', None)], logging = []\<rparr>)"
    by (simp add: handle_modal_state_def post_as_string_def request_def world0_def
        stack_klippy_def command_map_def api_run_gcode_def)
  from a b c d show ?thesis
    by (simp add: post_as_flag_def post_as_string_def request_def world0_def)
qed

text \<open>
  C3 does not hold as stated. On the empty stack a restore or invalidate request to a
  connected handler is answered with an error result: \<^verbatim>\<open>Invalid request type\<close>, or,
  where the type of the request is given as the string and the command is sent, the
  message with which the interpreter rejects it.
\<close>

theorem pop_on_empty_is_error:
  "handle_modal_state (Some stack_klippy) no_float (post_as_flag ''restore'') (world0 0)
     = (Inr [(''result'', ''error''), (''message'', ''Invalid request type'')], world0 0)
   \<and> handle_modal_state (Some stack_klippy) no_float (post_as_flag ''invalidate'') (world0 0)
     = (Inr [(''result'', ''error''), (''message'', ''Invalid request type'')], world0 0)
   \<and> handle_modal_state (Some stack_klippy) no_float (post_as_string ''restore'') (world0 0)
     = (Inr [(''result'', ''error''), (''message'', ''No modal state saved'')],
        \<lparr>kstate = 0, calls = [(Gcode ''M72'', Some ''No modal state saved'')], logging = []\<rparr>)
   \<and> handle_modal_state (Some stack_klippy) no_float (post_as_string ''invalidate'') (world0 0)
     = (Inr [(''result'', ''error''), (''message'', ''No modal state saved'')],
        \<lparr>kstate = 0, calls = [(Gcode ''M71'', Some ''No modal state saved'')], logging = []\<rparr>)"
  by (simp add: handle_modal_state_def post_as_flag_def post_as_string_def request_def
      world0_def stack_klippy_def command_map_def api_run_gcode_def)

text \<open>
  C3, amended. A restore or invalidate request never raises and makes at most one call,
  \<^verbatim>\<open>M72\<close> for restore and \<^verbatim>\<open>M71\<close> for invalidate. Its answer is
  \<^verbatim>\<open>Klippy not connected\<close> or \<^verbatim>\<open>Invalid request type\<close>, with no call; or success,
  when the command was sent and accepted; or the error result with the interpreter's
  message, when the command was sent and rejected.
\<close>

theorem pop_never_raises:
  assumes "request_type q = TypeStr ''POST'' \<or> request_type q = TypeFlag POST"
    and "raw_args q ''action'' = Some (PyStr action)"
    and "action = ''restore'' \<and> c = ''M72'' \<or> action = ''invalidate'' \<and> c = ''M71''"
  shows "\<exists>ans. fst (handle_modal_state ka sf q w) = Inr ans
          \<and> (ans = [(''result'', ''error''), (''message'', ''Klippy not connected'')]
                \<and> calls (snd (handle_modal_state ka sf q w)) = calls w
              \<or> ans = [(''result'', ''error''), (''message'', ''Invalid request type'')]
                \<and> calls (snd (handle_modal_state ka sf q w)) = calls w
              \<or> ans = [(''result'', ''success''), (''action'', action), (''command'', c)]
                \<and> calls (snd (handle_modal_state ka sf q w)) = calls w @ [(Gcode c, None)]
              \<or> (\<exists>e. ans = [(''result'', ''error''), (''message'', e)]
                \<and> calls (snd (handle_modal_state ka sf q w)) = calls w @ [(Gcode c, Some e)]))"
proof -
  have "(case raw_args q ''action'' of None \<Rightarrow> PyStr ''save'' | Some a \<Rightarrow> a) = PyStr action"
    using assms(2) by simp
  moreover have "command_map action = Some c \<and> c \<noteq> []"
    using assms(3) by (auto simp: command_map_def)
  ultimately show ?thesis
    using known_action_outcomes[OF assms(1), of action c ka sf w] by simp
qed

theorem pop_never_raises_witness:
  "request_type (post_as_flag ''restore'') = TypeFlag POST
   \<and> raw_args (post_as_flag ''restore'') ''action'' = Some (PyStr ''restore'')
   \<and> handle_modal_state (Some stack_klippy) no_float (post_as_flag ''restore'') (world0 0)
       = (Inr [(''result'', ''error''), (''message'', ''Invalid request type'')], world0 0)
   \<and> request_type (post_as_string ''invalidate'') = TypeStr ''POST''
   \<and> raw_args (post_as_string ''invalidate'') ''action'' = Some (PyStr ''invalidate'')
   \<and> handle_modal_state (Some stack_klippy) no_float (post_as_string ''invalidate'') (world0 1)
       = (Inr [(''result'', ''success''), (''action'', ''invalidate''), (''command'', ''M71'')],
          \<lparr>kstate = 0, calls = [(Gcode ''M71'', None)], logging = []\<rparr>)"
proof -
  have f: "request_type (post_as_flag ''restore'') = TypeStr ''POST''
             \<or> request_type (post_as_flag ''restore'') = TypeFlag POST"
    and fa: "raw_args (post_as_flag ''restore'') ''action'' = Some (PyStr ''restore'')"
    by (simp_all add: post_as_flag_def request_def)
  have s: "request_type (post_as_string ''invalidate'') = TypeStr ''POST''
             \<or> request_type (post_as_string ''invalidate'') = TypeFlag POST"
    and sa: "raw_args (post_as_string ''invalidate'') ''action'' = Some (PyStr ''invalidate'')"
    by (simp_all add: post_as_string_def request_def)
  note a = pop_never_raises[OF f fa, of "''M72''" "Some stack_klippy" no_float "world0 0"]
  note b = pop_never_raises[OF s sa, of "''M71''" "Some stack_klippy" no_float "world0 1"]
  have c: "handle_modal_state (Some stack_klippy) no_float (post_as_flag ''restore'') (world0 0)
             = (Inr [(''result'', ''error''), (''message'', ''Invalid request type'')], world0 0)"
    by (simp add: handle_modal_state_def post_as_flag_def request_def)
  have d: "handle_modal_state (Some stack_klippy) no_float (post_as_string ''invalidate'') (world0 1)
       = (Inr [(''result'', ''success''), (''action'', ''invalidate''), (''command'', ''M71'')],
          \<lparr>kstate = 0, calls = [(Gcode ''M71'', None)], logging = []\<rparr>)"
    by (simp add: handle_modal_state_def post_as_string_def request_def world0_def
        stack_klippy_def command_map_def api_run_gcode_def)
  from a b c d show ?thesis
    by (simp add: post_as_flag_def post_as_string_def request_def)
qed

section \<open>A handler that is not connected\<close>

text \<open>
  C6, as the claim states it, fails: a tool update sent while the interpreter is down
  does send its command, and the exception of the connection reaches the caller.
\<close>

theorem tool_command_raises_when_down:
  "handle_update_tool (Inr down_klippy) (\<lambda>_. []) (tool_request [] [(''id'', Given 1)]) (world0 ())
     = (Inl (Raised ''Klippy Host not connected''),
        \<lparr>kstate = (),
         calls = [(Gcode ''UPDATE_TOOL ID=1'', Some ''Klippy Host not connected'')],
         logging = []\<rparr>)"
  by (simp add: handle_update_tool_def required_def tool_request_def update_params_def
      tdb_run_gcode_def api_run_gcode_def down_klippy_def world0_def str_int_def
      str_nat.simps digit_def)

text \<open>
  C6, amended. The modal state handler, when its \<^verbatim>\<open>klippy_apis\<close> is unset, answers
  every request with the error result \<^verbatim>\<open>Klippy not connected\<close> and leaves the world
  as it was: no command, no query. \<^verbatim>\<open>_run_gcode\<close> and \<^verbatim>\<open>_query_printer_objects\<close>
  of the tool database have no such guard: they forward the call, and when the
  connection raises, so do they.
\<close>

theorem disconnected_guard:
  "handle_modal_state None sf q w
     = (Inr [(''result'', ''error''), (''message'', ''Klippy not connected'')], w)
   \<and> (run_gcode api g (kstate w) = (Some e, k') \<longrightarrow>
        tdb_run_gcode (Inr api) g w
          = (Inl (Raised e), w\<lparr>kstate := k', calls := calls w @ [(Gcode g, Some e)]\<rparr>))
   \<and> (query_objects api obj (kstate w) = (Inl e, k') \<longrightarrow>
        tdb_query_printer_objects (Inr api) obj w
          = (Inl (Raised e), w\<lparr>kstate := k', calls := calls w @ [(Query obj, Some e)]\<rparr>))"
  by (simp add: handle_modal_state_def tdb_run_gcode_def api_run_gcode_def
      tdb_query_printer_objects_def api_query_objects_def)

theorem disconnected_guard_witness:
  "handle_modal_state None no_float (request (TypeFlag DELETE) []) (world0 ())
     = (Inr [(''result'', ''error''), (''message'', ''Klippy not connected'')], world0 ())
   \<and> run_gcode down_klippy ''TOOL_INFO'' (kstate (world0 ())) = (Some ''Klippy Host not connected'', ())
   \<and> tdb_run_gcode (Inr down_klippy) ''TOOL_INFO'' (world0 ())
       = (Inl (Raised ''Klippy Host not connected''),
          \<lparr>kstate = (), calls = [(Gcode ''TOOL_INFO'', Some ''Klippy Host not connected'')],
           logging = []\<rparr>)
   \<and> query_objects down_klippy ''tool_database'' (kstate (world0 ()))
       = (Inl ''Klippy Host not connected'', ())
   \<and> tdb_query_printer_objects (Inr down_klippy) ''tool_database'' (world0 ())
       = (Inl (Raised ''Klippy Host not connected''),
          \<lparr>kstate = (), calls = [(Query ''tool_database'', Some ''Klippy Host not connected'')],
           logging = []\<rparr>)"
  using disconnected_guard[of no_float "request (TypeFlag DELETE) []" "world0 ()" down_klippy
      "''TOOL_INFO''" "''Klippy Host not connected''" "()" "''tool_database''"]
  by (simp add: down_klippy_def world0_def)

section \<open>The most used tool\<close>

lemma max_from_split:
  "\<exists>pre post. b # xs = pre @ max_from key b xs # post
       \<and> (\<forall>t\<in>set pre. key t < key (max_from key b xs))
       \<and> (\<forall>t\<in>set post. key t \<le> key (max_from key b xs))"
proof (induction xs arbitrary: b)
  case Nil
  have "[b] = [] @ max_from key b [] # []" by simp
  then show ?case by (intro exI[of _ "[]"]) simp
next
  case (Cons x xs)
  let ?m = "max_from key b (x # xs)"
  show ?case
  proof (cases "key b < key x")
    case True
    then have m: "?m = max_from key x xs" by simp
    from Cons.IH[of x] obtain pre post where
      s: "x # xs = pre @ max_from key x xs # post"
      and p: "\<forall>t\<in>set pre. key t < key (max_from key x xs)"
      and q: "\<forall>t\<in>set post. key t \<le> key (max_from key x xs)"
      by blast
    have "key x \<le> key (max_from key x xs)"
    proof (cases pre)
      case Nil
      with s have "max_from key x xs = x" by (metis append_Nil list.inject)
      then show ?thesis by simp
    next
      case (Cons y ys)
      with s have "y = x" by simp
      with p Cons show ?thesis by auto
    qed
    with True have "key b < key (max_from key x xs)" by simp
    with p have p': "\<forall>t\<in>set (b # pre). key t < key ?m" using m by simp
    have "b # x # xs = (b # pre) @ ?m # post" using s m by simp
    with p' q m show ?thesis by metis
  next
    case False
    then have m: "?m = max_from key b xs" by simp
    from Cons.IH[of b] obtain pre post where
      s: "b # xs = pre @ max_from key b xs # post"
      and p: "\<forall>t\<in>set pre. key t < key (max_from key b xs)"
      and q: "\<forall>t\<in>set post. key t \<le> key (max_from key b xs)"
      by blast
    show ?thesis
    proof (cases pre)
      case Nil
      with s have b: "max_from key b xs = b" and xs: "xs = post"
        by (metis append_Nil list.inject)+
      have "b # x # xs = [] @ ?m # (x # post)" using m b xs by simp
      moreover have "\<forall>t\<in>set (x # post). key t \<le> key ?m"
        using q m b False by auto
      ultimately show ?thesis by (metis empty_iff list.set(1))
    next
      case (Cons y ys)
      have "b # xs = y # (ys @ max_from key b xs # post)"
        using s unfolding Cons append_Cons .
      then have y: "y = b" and xs: "xs = ys @ max_from key b xs # post"
        by (metis list.inject)+
      from p Cons y have "key b < key (max_from key b xs)" by simp
      with False have "key x < key (max_from key b xs)" by simp
      with p Cons y have p': "\<forall>t\<in>set (b # x # ys). key t < key ?m" using m by simp
      have "b # x # xs = (b # x # ys) @ ?m # post" using xs m by simp
      with p' q m show ?thesis by metis
    qed
  qed
qed


text \<open>
  C7. When the status query answers, the statistics carry as most used tool: nothing for
  the empty listing; otherwise a tool \<open>m\<close> of the listing such that every tool before
  it has a smaller \<^verbatim>\<open>total_runtime\<close> and every tool after it has a \<^verbatim>\<open>total_runtime\<close>
  that is not greater (a tool without the field counting as 0). So \<open>m\<close> has the
  greatest total runtime, and among the tools with that runtime it is the first of the
  listing.
\<close>

theorem most_used_first_greatest:
  assumes "tdb_query_printer_objects printer ''tool_database'' w = (Inr result, w')"
  shows "\<exists>st. handle_tool_stats printer q w = (Inr st, w')
          \<and> (result_tools result = [] \<longrightarrow> most_used_tool st = None)
          \<and> (result_tools result \<noteq> [] \<longrightarrow>
               (\<exists>pre m post. most_used_tool st = Some m
                  \<and> result_tools result = pre @ m # post
                  \<and> (\<forall>t\<in>set pre. (case total_runtime t of None \<Rightarrow> 0 | Some r \<Rightarrow> r)
                                      < (case total_runtime m of None \<Rightarrow> 0 | Some r \<Rightarrow> r))
                  \<and> (\<forall>t\<in>set post. (case total_runtime t of None \<Rightarrow> 0 | Some r \<Rightarrow> r)
                                      \<le> (case total_runtime m of None \<Rightarrow> 0 | Some r \<Rightarrow> r))))"
proof -
  let ?ts = "result_tools result"
  let ?st = "\<lparr>tool_count = length ?ts,
              active_tools = length (filter active_key ?ts),
              inactive_tools = length (filter (\<lambda>t. \<not> active_key t) ?ts),
              stats_total_runtime = foldl (+) 0 (map runtime_key ?ts),
              stats_total_distance = foldl (+) 0 (map distance_key ?ts),
              most_used_tool = most_used ?ts\<rparr>"
  have h: "handle_tool_stats printer q w = (Inr ?st, w')"
    using assms by (simp add: handle_tool_stats_def Let_def)
  have e: "?ts = [] \<longrightarrow> most_used_tool ?st = None"
    by (simp add: most_used_def)
  have n: "?ts \<noteq> [] \<longrightarrow>
               (\<exists>pre m post. most_used_tool ?st = Some m
                  \<and> ?ts = pre @ m # post
                  \<and> (\<forall>t\<in>set pre. (case total_runtime t of None \<Rightarrow> 0 | Some r \<Rightarrow> r)
                                      < (case total_runtime m of None \<Rightarrow> 0 | Some r \<Rightarrow> r))
                  \<and> (\<forall>t\<in>set post. (case total_runtime t of None \<Rightarrow> 0 | Some r \<Rightarrow> r)
                                      \<le> (case total_runtime m of None \<Rightarrow> 0 | Some r \<Rightarrow> r)))"
  proof
    assume "?ts \<noteq> []"
    then obtain t rest where tr: "?ts = t # rest" by (cases ?ts) auto
    then have mu: "most_used_tool ?st = Some (max_from runtime_key t rest)"
      by (simp add: most_used_def)
    let ?m = "max_from runtime_key t rest"
    from max_from_split[of t rest runtime_key] obtain pre post where
      s: "t # rest = pre @ ?m # post"
      and p: "\<forall>x\<in>set pre. runtime_key x < runtime_key ?m"
      and q: "\<forall>x\<in>set post. runtime_key x \<le> runtime_key ?m"
      by blast
    from p have p': "\<forall>t\<in>set pre. (case total_runtime t of None \<Rightarrow> 0 | Some r \<Rightarrow> r)
                                      < (case total_runtime ?m of None \<Rightarrow> 0 | Some r \<Rightarrow> r)"
      by (simp add: runtime_key_def)
    from q have q': "\<forall>t\<in>set post. (case total_runtime t of None \<Rightarrow> 0 | Some r \<Rightarrow> r)
                                      \<le> (case total_runtime ?m of None \<Rightarrow> 0 | Some r \<Rightarrow> r)"
      by (simp add: runtime_key_def)
    from s tr have "?ts = pre @ ?m # post" by simp
    with mu p' q' show "\<exists>pre m post. most_used_tool ?st = Some m
                  \<and> ?ts = pre @ m # post
                  \<and> (\<forall>t\<in>set pre. (case total_runtime t of None \<Rightarrow> 0 | Some r \<Rightarrow> r)
                                      < (case total_runtime m of None \<Rightarrow> 0 | Some r \<Rightarrow> r))
                  \<and> (\<forall>t\<in>set post. (case total_runtime t of None \<Rightarrow> 0 | Some r \<Rightarrow> r)
                                      \<le> (case total_runtime m of None \<Rightarrow> 0 | Some r \<Rightarrow> r))"
      by blast
  qed
  from h e n show ?thesis by blast
qed

lemma example_tools_query:
  "tdb_query_printer_objects (Inr (db_klippy example_tools None)) ''tool_database'' (world0 ())
     = (Inr (db_result example_tools None),
        \<lparr>kstate = (), calls = [(Query ''tool_database'', None)], logging = []\<rparr>)"
  by (simp add: tdb_query_printer_objects_def api_query_objects_def db_klippy_def world0_def)

lemma example_tools_result: "result_tools (db_result example_tools None) = example_tools"
  by (simp add: result_tools_def result_tool_database_def db_result_def)

lemma example_tools_stats:
  "handle_tool_stats (Inr (db_klippy example_tools None)) (tool_request [] []) (world0 ())
     = (Inr \<lparr>tool_count = 4, active_tools = 4, inactive_tools = 0,
             stats_total_runtime = 23, stats_total_distance = 0,
             most_used_tool = Some (mk_tool 3 (Some 9))\<rparr>,
        \<lparr>kstate = (), calls = [(Query ''tool_database'', None)], logging = []\<rparr>)"
  by (simp add: handle_tool_stats_def example_tools_query example_tools_result Let_def)
     (simp add: example_tools_def mk_tool_def most_used_def runtime_key_def distance_key_def
        active_key_def)

theorem most_used_first_greatest_witness:
  "tdb_query_printer_objects (Inr (db_klippy example_tools None)) ''tool_database'' (world0 ())
     = (Inr (db_result example_tools None),
        \<lparr>kstate = (), calls = [(Query ''tool_database'', None)], logging = []\<rparr>)
   \<and> result_tools (db_result example_tools None)
       = [mk_tool 1 (Some 5), mk_tool 2 None] @ mk_tool 3 (Some 9) # [mk_tool 4 (Some 9)]
   \<and> (\<exists>st. handle_tool_stats (Inr (db_klippy example_tools None)) (tool_request [] []) (world0 ())
              = (Inr st, \<lparr>kstate = (), calls = [(Query ''tool_database'', None)], logging = []\<rparr>)
          \<and> most_used_tool st = Some (mk_tool 3 (Some 9)))
   \<and> (case total_runtime (mk_tool 1 (Some 5)) of None \<Rightarrow> 0 | Some r \<Rightarrow> r)
         < (case total_runtime (mk_tool 3 (Some 9)) of None \<Rightarrow> 0 | Some r \<Rightarrow> r)
   \<and> (case total_runtime (mk_tool 2 None) of None \<Rightarrow> 0 | Some r \<Rightarrow> r)
         < (case total_runtime (mk_tool 3 (Some 9)) of None \<Rightarrow> 0 | Some r \<Rightarrow> r)
   \<and> (case total_runtime (mk_tool 4 (Some 9)) of None \<Rightarrow> 0 | Some r \<Rightarrow> r)
         \<le> (case total_runtime (mk_tool 3 (Some 9)) of None \<Rightarrow> 0 | Some r \<Rightarrow> r)"
proof -
  note t = most_used_first_greatest[OF example_tools_query, of "tool_request [] []"]
  have r: "result_tools (db_result example_tools None)
       = [mk_tool 1 (Some 5), mk_tool 2 None] @ mk_tool 3 (Some 9) # [mk_tool 4 (Some 9)]"
    unfolding example_tools_result by (simp add: example_tools_def)
  from t example_tools_stats have
    "\<exists>st. handle_tool_stats (Inr (db_klippy example_tools None)) (tool_request [] []) (world0 ())
              = (Inr st, \<lparr>kstate = (), calls = [(Query ''tool_database'', None)], logging = []\<rparr>)
          \<and> most_used_tool st = Some (mk_tool 3 (Some 9))"
    by auto
  with example_tools_query r show ?thesis by (simp add: mk_tool_def)
qed

section \<open>The update command\<close>







section \<open>Tool info with the identifier 0\<close>

lemma tool_info_bare:
  assumes "int_args q ''id'' = Given 0 \<or> int_args q ''id'' = Missing"
  shows "handle_tool_info printer q w =
     (case tdb_run_gcode printer ''TOOL_INFO'' w of
        (Inl e, w1) \<Rightarrow> (Inl e, w1)
      | (Inr u, w1) \<Rightarrow>
          (case tdb_query_printer_objects printer ''tool_database'' w1 of
             (Inl e, w2) \<Rightarrow> (Inl e, w2)
           | (Inr result, w2) \<Rightarrow> (resolve_current result, w2)))"
  using assms
  by (auto simp: handle_tool_info_def resolve_current_def Let_def
      split: prod.splits sum.splits option.splits)

lemma tdb_run_gcode_not_http: "fst (tdb_run_gcode printer g w) \<noteq> Inl (HTTPError c m)"
  by (auto simp: tdb_run_gcode_def split: sum.splits prod.splits option.splits)

lemma tdb_query_not_http: "fst (tdb_query_printer_objects printer obj w) \<noteq> Inl (HTTPError c m)"
  by (auto simp: tdb_query_printer_objects_def split: sum.splits prod.splits)

text \<open>
  C10. A request with \<^verbatim>\<open>id = 0\<close> is handled exactly as the request without the key:
  the first call is the bare \<^verbatim>\<open>TOOL_INFO\<close>; when the command and the status query
  succeed the answer is the current tool, or the 404 when there is none (or it is an
  empty dictionary); and a 404 comes only out of that last case.
\<close>

theorem tool_info_zero_is_current:
  assumes "int_args q ''id'' = Given 0"
  shows "handle_tool_info printer q w = handle_tool_info printer (no_id q) w
       \<and> (\<forall>api. printer = Inr api \<longrightarrow>
            (\<exists>r rest. calls (snd (handle_tool_info printer q w))
                         = calls w @ (Gcode ''TOOL_INFO'', r) # rest))
       \<and> (\<forall>w1 result w2.
             tdb_run_gcode printer ''TOOL_INFO'' w = (Inr (), w1)
             \<and> tdb_query_printer_objects printer ''tool_database'' w1 = (Inr result, w2)
             \<longrightarrow> handle_tool_info printer q w = (resolve_current result, w2))
       \<and> (\<forall>c m. fst (handle_tool_info printer q w) = Inl (HTTPError c m) \<longrightarrow>
             (\<exists>w1 result w2.
                tdb_run_gcode printer ''TOOL_INFO'' w = (Inr (), w1)
                \<and> tdb_query_printer_objects printer ''tool_database'' w1 = (Inr result, w2)
                \<and> resolve_current result = Inl not_found
                \<and> (case current_tool (result_tool_database result) of
                      None \<Rightarrow> True | Some t \<Rightarrow> \<not> dict_truthy t)))"
proof -
  have b: "handle_tool_info printer q w =
     (case tdb_run_gcode printer ''TOOL_INFO'' w of
        (Inl e, w1) \<Rightarrow> (Inl e, w1)
      | (Inr u, w1) \<Rightarrow>
          (case tdb_query_printer_objects printer ''tool_database'' w1 of
             (Inl e, w2) \<Rightarrow> (Inl e, w2)
           | (Inr result, w2) \<Rightarrow> (resolve_current result, w2)))"
    using assms by (intro tool_info_bare) simp
  have 1: "handle_tool_info printer q w = handle_tool_info printer (no_id q) w"
  proof -
    have "int_args (no_id q) ''id'' = Missing" by (simp add: no_id_def)
    then have "handle_tool_info printer (no_id q) w =
     (case tdb_run_gcode printer ''TOOL_INFO'' w of
        (Inl e, w1) \<Rightarrow> (Inl e, w1)
      | (Inr u, w1) \<Rightarrow>
          (case tdb_query_printer_objects printer ''tool_database'' w1 of
             (Inl e, w2) \<Rightarrow> (Inl e, w2)
           | (Inr result, w2) \<Rightarrow> (resolve_current result, w2)))"
      by (intro tool_info_bare) simp
    with b show ?thesis by simp
  qed
  have 2: "\<forall>api. printer = Inr api \<longrightarrow>
            (\<exists>r rest. calls (snd (handle_tool_info printer q w))
                         = calls w @ (Gcode ''TOOL_INFO'', r) # rest)"
  proof (intro allI impI)
    fix api assume p: "printer = Inr api"
    obtain r k' where rk: "run_gcode api ''TOOL_INFO'' (kstate w) = (r, k')"
      by (cases "run_gcode api ''TOOL_INFO'' (kstate w)")
    let ?w1 = "w\<lparr>kstate := k', calls := calls w @ [(Gcode ''TOOL_INFO'', r)]\<rparr>"
    obtain r2 k2 where rk2: "query_objects api ''tool_database'' (kstate ?w1) = (r2, k2)"
      by (cases "query_objects api ''tool_database'' (kstate ?w1)")
    have "calls (snd (handle_tool_info printer q w))
            = calls w @ (Gcode ''TOOL_INFO'', r)
                # (if r = None
                   then [(Query ''tool_database'', case r2 of Inl e \<Rightarrow> Some e | Inr _ \<Rightarrow> None)]
                   else [])"
      unfolding b using p rk rk2
      by (cases r; cases r2)
         (simp_all add: tdb_run_gcode_def tdb_query_printer_objects_def api_query_objects_def
            api_run_gcode_def)
    then show "\<exists>r rest. calls (snd (handle_tool_info printer q w))
                         = calls w @ (Gcode ''TOOL_INFO'', r) # rest"
      by blast
  qed
  have 3: "\<forall>w1 result w2.
             tdb_run_gcode printer ''TOOL_INFO'' w = (Inr (), w1)
             \<and> tdb_query_printer_objects printer ''tool_database'' w1 = (Inr result, w2)
             \<longrightarrow> handle_tool_info printer q w = (resolve_current result, w2)"
    by (simp add: b)
  have 4: "\<forall>c m. fst (handle_tool_info printer q w) = Inl (HTTPError c m) \<longrightarrow>
             (\<exists>w1 result w2.
                tdb_run_gcode printer ''TOOL_INFO'' w = (Inr (), w1)
                \<and> tdb_query_printer_objects printer ''tool_database'' w1 = (Inr result, w2)
                \<and> resolve_current result = Inl not_found
                \<and> (case current_tool (result_tool_database result) of
                      None \<Rightarrow> True | Some t \<Rightarrow> \<not> dict_truthy t))"
  proof (intro allI impI)
    fix c m assume h: "fst (handle_tool_info printer q w) = Inl (HTTPError c m)"
    obtain x w1 where x: "tdb_run_gcode printer ''TOOL_INFO'' w = (x, w1)"
      by (cases "tdb_run_gcode printer ''TOOL_INFO'' w")
    obtain y w2 where y: "tdb_query_printer_objects printer ''tool_database'' w1 = (y, w2)"
      by (cases "tdb_query_printer_objects printer ''tool_database'' w1")
    from tdb_run_gcode_not_http[of printer "''TOOL_INFO''" w c m] x have nx: "x \<noteq> Inl (HTTPError c m)"
      by simp
    from tdb_query_not_http[of printer "''tool_database''" w1 c m] y have ny: "y \<noteq> Inl (HTTPError c m)"
      by simp
    from h x nx have xr: "x = Inr ()" by (cases x) (simp_all add: b)
    from h x xr y ny obtain result where yr: "y = Inr result" by (cases y) (simp_all add: b)
    from h x xr y yr have rc: "resolve_current result = Inl (HTTPError c m)" by (simp add: b)
    then have "resolve_current result = Inl not_found
                \<and> (case current_tool (result_tool_database result) of
                      None \<Rightarrow> True | Some t \<Rightarrow> \<not> dict_truthy t)"
      by (auto simp: resolve_current_def split: option.splits if_splits)
    with x xr y yr show "\<exists>w1 result w2.
                tdb_run_gcode printer ''TOOL_INFO'' w = (Inr (), w1)
                \<and> tdb_query_printer_objects printer ''tool_database'' w1 = (Inr result, w2)
                \<and> resolve_current result = Inl not_found
                \<and> (case current_tool (result_tool_database result) of
                      None \<Rightarrow> True | Some t \<Rightarrow> \<not> dict_truthy t)"
      by blast
  qed
  from 1 2 3 4 show ?thesis by blast
qed

theorem tool_info_zero_is_current_witness:
  "int_args zero_id_request ''id'' = Given 0
   \<and> handle_tool_info (Inr (db_klippy info_tools (Some (mk_tool 7 None)))) zero_id_request (world0 ())
       = handle_tool_info (Inr (db_klippy info_tools (Some (mk_tool 7 None))))
           (no_id zero_id_request) (world0 ())
   \<and> handle_tool_info (Inr (db_klippy info_tools (Some (mk_tool 7 None)))) zero_id_request (world0 ())
       = (Inr (mk_tool 7 None),
          \<lparr>kstate = (), calls = [(Gcode ''TOOL_INFO'', None), (Query ''tool_database'', None)],
           logging = []\<rparr>)
   \<and> handle_tool_info (Inr (db_klippy info_tools None)) zero_id_request (world0 ())
       = (Inl (HTTPError 404 ''Tool not found''),
          \<lparr>kstate = (), calls = [(Gcode ''TOOL_INFO'', None), (Query ''tool_database'', None)],
           logging = []\<rparr>)"
proof -
  have h: "int_args zero_id_request ''id'' = Given 0"
    by (simp add: zero_id_request_def tool_request_def)
  have r: "tdb_run_gcode (Inr (db_klippy info_tools c)) ''TOOL_INFO'' (world0 ())
             = (Inr (), \<lparr>kstate = (), calls = [(Gcode ''TOOL_INFO'', None)], logging = []\<rparr>)" for c
    by (simp add: tdb_run_gcode_def api_run_gcode_def db_klippy_def world0_def)
  have q: "tdb_query_printer_objects (Inr (db_klippy info_tools c)) ''tool_database''
              \<lparr>kstate = (), calls = [(Gcode ''TOOL_INFO'', None)], logging = []\<rparr>
             = (Inr (db_result info_tools c),
                \<lparr>kstate = (),
                 calls = [(Gcode ''TOOL_INFO'', None), (Query ''tool_database'', None)],
                 logging = []\<rparr>)" for c
    by (simp add: tdb_query_printer_objects_def api_query_objects_def db_klippy_def)
  have c1: "resolve_current (db_result info_tools (Some (mk_tool 7 None))) = Inr (mk_tool 7 None)"
    by (simp add: resolve_current_def result_tool_database_def db_result_def dict_truthy_def
        mk_tool_def)
  have c2: "resolve_current (db_result info_tools None) = Inl (HTTPError 404 ''Tool not found'')"
    by (simp add: resolve_current_def result_tool_database_def db_result_def not_found_def)
  from tool_info_zero_is_current[OF h, of "Inr (db_klippy info_tools (Some (mk_tool 7 None)))"
      "world0 ()"] r q c1
  have a: "handle_tool_info (Inr (db_klippy info_tools (Some (mk_tool 7 None)))) zero_id_request
             (world0 ())
           = handle_tool_info (Inr (db_klippy info_tools (Some (mk_tool 7 None))))
               (no_id zero_id_request) (world0 ())
         \<and> handle_tool_info (Inr (db_klippy info_tools (Some (mk_tool 7 None)))) zero_id_request
             (world0 ())
           = (Inr (mk_tool 7 None),
              \<lparr>kstate = (),
               calls = [(Gcode ''TOOL_INFO'', None), (Query ''tool_database'', None)],
               logging = []\<rparr>)"
    by metis
  from tool_info_zero_is_current[OF h, of "Inr (db_klippy info_tools None)" "world0 ()"] r q c2
  have b: "handle_tool_info (Inr (db_klippy info_tools None)) zero_id_request (world0 ())
           = (Inl (HTTPError 404 ''Tool not found''),
              \<lparr>kstate = (),
               calls = [(Gcode ''TOOL_INFO'', None), (Query ''tool_database'', None)],
               logging = []\<rparr>)"
    by metis
  from h a b show ?thesis by blast
qed

end
